theory Spec2Isabelle
  imports Main
begin

section \<open>The printer interface of opengb (opengb/printer/base.py)\<close>

subsection \<open>Printer state\<close>

text \<open>
  \<^verbatim>\<open>class State(enum.Enum)\<close>: five members, each with an explicit integer value.
  \<open>State_value\<close> is the member's \<^verbatim>\<open>.value\<close>, \<open>State_name\<close> its \<^verbatim>\<open>.name\<close>.
\<close>

datatype State = DISCONNECTED | READY | EXECUTING | PAUSED | ERROR

fun State_value :: "State \<Rightarrow> int" where
  "State_value DISCONNECTED = 10"
| "State_value READY = 20"
| "State_value EXECUTING = 30"
| "State_value PAUSED = 40"
| "State_value ERROR = 100"

fun State_name :: "State \<Rightarrow> string" where
  "State_name DISCONNECTED = ''DISCONNECTED''"
| "State_name READY = ''READY''"
| "State_name EXECUTING = ''EXECUTING''"
| "State_name PAUSED = ''PAUSED''"
| "State_name ERROR = ''ERROR''"

text \<open>The members in definition order, as iterating over the enumeration yields them.\<close>

definition State_members :: "State list" where
  "State_members = [DISCONNECTED, READY, EXECUTING, PAUSED, ERROR]"

subsection \<open>Python values, dictionaries and exceptions\<close>

text \<open>
  The values this module hands to \<^verbatim>\<open>json.dumps\<close>: integers, floats, strings and
  dictionaries with string keys. The module never computes with a float, it only passes it
  on, so the float type is a parameter \<open>'f\<close>. A dictionary is an association list in
  insertion order with distinct keys, as a Python \<^verbatim>\<open>dict\<close> keeps it.
\<close>

datatype 'f pyval =
    PInt int
  | PFloat 'f
  | PStr string
  | PDict "(string \<times> 'f pyval) list"

text \<open>\<^verbatim>\<open>d[k] = v\<close>: an existing key keeps its position and gets the new value, a new key
  goes to the end.\<close>

fun dict_set :: "(string \<times> 'v) list \<Rightarrow> string \<Rightarrow> 'v \<Rightarrow> (string \<times> 'v) list" where
  "dict_set [] k v = [(k, v)]"
| "dict_set ((k', v') # d) k v =
     (if k' = k then (k, v) # d else (k', v') # dict_set d k v)"

text \<open>The exceptions of the model: the module's own \<^verbatim>\<open>NotReadyException\<close> (the module
  defines it and raises it nowhere), the two that \<^verbatim>\<open>Queue.put\<close> raises, and the
  \<^verbatim>\<open>TypeError\<close> of \<^verbatim>\<open>json.JSONEncoder.default\<close>.\<close>

datatype exn = NotReadyException | ValueError | Full | TypeError

text \<open>
  How a call ends: it returns, it raises, or it has not returned because it waits inside
  a blocking queue operation.
\<close>

datatype status = Done | Raised exn | Waiting

subsection \<open>The outbound queue\<close>

text \<open>
  \<^verbatim>\<open>multiprocessing.Queue\<close> as the standard library documents it: a FIFO of items with
  an optional bound (\<^verbatim>\<open>maxsize <= 0\<close> means no bound) that can be closed.
  \<^verbatim>\<open>put(obj, block=True, timeout=None)\<close> raises \<^verbatim>\<open>ValueError\<close> on a closed queue;
  with a free slot it appends the item; on a full queue it raises \<^verbatim>\<open>Full\<close> when
  \<^verbatim>\<open>block\<close> is false or a timeout was given and has passed, and otherwise waits for a
  free slot. No consumer is part of this model, so a full queue stays full.
\<close>

record 'a mpqueue =
  items :: "'a list"
  maxsize :: int
  closed :: bool

definition has_free_slot :: "'a mpqueue \<Rightarrow> bool" where
  "has_free_slot q = (maxsize q \<le> 0 \<or> int (length (items q)) < maxsize q)"

definition queue_put :: "'a mpqueue \<Rightarrow> 'a \<Rightarrow> bool \<Rightarrow> nat option \<Rightarrow> 'a mpqueue \<times> status" where
  "queue_put q obj block timeout =
     (if closed q then (q, Raised ValueError)
      else if has_free_slot q then (q\<lparr>items := items q @ [obj]\<rparr>, Done)
      else if block \<and> timeout = None then (q, Waiting)
      else (q, Raised Full))"

subsection \<open>Callbacks\<close>

text \<open>
  The two callback classes of the module. \<^verbatim>\<open>PrinterCallbacks\<close> has no fields;
  \<^verbatim>\<open>QueuedPrinterCallbacks\<close> holds the queue \<^verbatim>\<open>_from_printer\<close>.
\<close>

datatype callbacks =
    PrinterCallbacks
  | QueuedPrinterCallbacks "string mpqueue"

text \<open>The placeholder callbacks of \<^verbatim>\<open>PrinterCallbacks\<close>: the body of each is \<^verbatim>\<open>pass\<close>.\<close>

definition PrinterCallbacks_log :: "callbacks \<Rightarrow> 'f pyval \<Rightarrow> 'f pyval \<Rightarrow> callbacks \<times> status" where
  "PrinterCallbacks_log self level message = (self, Done)"

definition PrinterCallbacks_state_change :: "callbacks \<Rightarrow> State \<Rightarrow> State \<Rightarrow> callbacks \<times> status" where
  "PrinterCallbacks_state_change self old new = (self, Done)"

definition PrinterCallbacks_temp_update ::
  "callbacks \<Rightarrow> 'f pyval \<Rightarrow> 'f pyval \<Rightarrow> 'f pyval \<Rightarrow> 'f pyval \<Rightarrow> 'f pyval \<Rightarrow> 'f pyval
     \<Rightarrow> callbacks \<times> status" where
  "PrinterCallbacks_temp_update self bed_current bed_target nozzle1_current nozzle1_target
     nozzle2_current nozzle2_target = (self, Done)"

definition PrinterCallbacks_position_update ::
  "callbacks \<Rightarrow> 'f pyval \<Rightarrow> 'f pyval \<Rightarrow> 'f pyval \<Rightarrow> callbacks \<times> status" where
  "PrinterCallbacks_position_update self x y z = (self, Done)"

definition PrinterCallbacks_progress_update ::
  "callbacks \<Rightarrow> 'f pyval \<Rightarrow> 'f pyval \<Rightarrow> callbacks \<times> status" where
  "PrinterCallbacks_progress_update self current_line total_lines = (self, Done)"

definition PrinterCallbacks_z_change :: "callbacks \<Rightarrow> 'f pyval \<Rightarrow> callbacks \<times> status" where
  "PrinterCallbacks_z_change self new_z = (self, Done)"

text \<open>
  \<^verbatim>\<open>QueuedPrinterCallbacks._publish\<close>: sets the key \<^verbatim>\<open>'jsonrpc'\<close> of the event and puts
  \<^verbatim>\<open>json.dumps(event)\<close> on the queue, with the defaults of \<^verbatim>\<open>put\<close> (blocking, no
  timeout). \<^verbatim>\<open>json.dumps\<close> belongs to the standard library and is the parameter
  \<open>dumps\<close>; on the values of \<open>pyval\<close> it always returns a string. The methods take
  the queue of the object and return it updated.
\<close>

definition publish ::
  "('f pyval \<Rightarrow> string) \<Rightarrow> string mpqueue \<Rightarrow> (string \<times> 'f pyval) list
     \<Rightarrow> string mpqueue \<times> status" where
  "publish dumps from_printer event =
     queue_put from_printer (dumps (PDict (dict_set event ''jsonrpc'' (PStr ''2.0'')))) True None"

definition QueuedPrinterCallbacks_log ::
  "('f pyval \<Rightarrow> string) \<Rightarrow> string mpqueue \<Rightarrow> 'f pyval \<Rightarrow> 'f pyval
     \<Rightarrow> string mpqueue \<times> status" where
  "QueuedPrinterCallbacks_log dumps from_printer level message =
     publish dumps from_printer
       [(''event'', PStr ''log''),
        (''params'', PDict [(''level'', level), (''msg'', message)])]"

definition QueuedPrinterCallbacks_state_change ::
  "('f pyval \<Rightarrow> string) \<Rightarrow> string mpqueue \<Rightarrow> State \<Rightarrow> State \<Rightarrow> string mpqueue \<times> status" where
  "QueuedPrinterCallbacks_state_change dumps from_printer old new =
     publish dumps from_printer
       [(''event'', PStr ''state_change''),
        (''params'', PDict [(''old'', PInt (State_value old)),
                            (''new'', PInt (State_value new))])]"

definition QueuedPrinterCallbacks_temp_update ::
  "('f pyval \<Rightarrow> string) \<Rightarrow> string mpqueue
     \<Rightarrow> 'f pyval \<Rightarrow> 'f pyval \<Rightarrow> 'f pyval \<Rightarrow> 'f pyval \<Rightarrow> 'f pyval \<Rightarrow> 'f pyval
     \<Rightarrow> string mpqueue \<times> status" where
  "QueuedPrinterCallbacks_temp_update dumps from_printer bed_current bed_target
     nozzle1_current nozzle1_target nozzle2_current nozzle2_target =
     publish dumps from_printer
       [(''event'', PStr ''temp_update''),
        (''params'', PDict [(''bed_current'', bed_current),
                            (''bed_target'', bed_target),
                            (''nozzle1_current'', nozzle1_current),
                            (''nozzle1_target'', nozzle1_target),
                            (''nozzle2_current'', nozzle2_current),
                            (''nozzle2_target'', nozzle2_target)])]"

definition QueuedPrinterCallbacks_position_update ::
  "('f pyval \<Rightarrow> string) \<Rightarrow> string mpqueue \<Rightarrow> 'f pyval \<Rightarrow> 'f pyval \<Rightarrow> 'f pyval
     \<Rightarrow> string mpqueue \<times> status" where
  "QueuedPrinterCallbacks_position_update dumps from_printer x y z =
     publish dumps from_printer
       [(''event'', PStr ''position_update''),
        (''params'', PDict [(''x'', x), (''y'', y), (''z'', z)])]"

definition QueuedPrinterCallbacks_progress_update ::
  "('f pyval \<Rightarrow> string) \<Rightarrow> string mpqueue \<Rightarrow> 'f pyval \<Rightarrow> 'f pyval
     \<Rightarrow> string mpqueue \<times> status" where
  "QueuedPrinterCallbacks_progress_update dumps from_printer current_line total_lines =
     publish dumps from_printer
       [(''event'', PStr ''progress_update''),
        (''params'', PDict [(''current_line'', current_line),
                            (''total_lines'', total_lines)])]"

definition QueuedPrinterCallbacks_z_change ::
  "('f pyval \<Rightarrow> string) \<Rightarrow> string mpqueue \<Rightarrow> 'f pyval \<Rightarrow> string mpqueue \<times> status" where
  "QueuedPrinterCallbacks_z_change dumps from_printer position =
     publish dumps from_printer
       [(''event'', PStr ''z_change''),
        (''position'', position)]"

text \<open>
  A call \<^verbatim>\<open>self._callbacks.m(...)\<close> runs the method of the object's class. The
  methods of \<^verbatim>\<open>QueuedPrinterCallbacks\<close> only change the queue the object holds.
\<close>

definition on_queue :: "string mpqueue \<times> status \<Rightarrow> callbacks \<times> status" where
  "on_queue r = (QueuedPrinterCallbacks (fst r), snd r)"

definition callbacks_log ::
  "('f pyval \<Rightarrow> string) \<Rightarrow> callbacks \<Rightarrow> 'f pyval \<Rightarrow> 'f pyval \<Rightarrow> callbacks \<times> status" where
  "callbacks_log dumps self level message =
     (case self of
        PrinterCallbacks \<Rightarrow> PrinterCallbacks_log self level message
      | QueuedPrinterCallbacks q \<Rightarrow> on_queue (QueuedPrinterCallbacks_log dumps q level message))"

definition callbacks_state_change ::
  "('f pyval \<Rightarrow> string) \<Rightarrow> callbacks \<Rightarrow> State \<Rightarrow> State \<Rightarrow> callbacks \<times> status" where
  "callbacks_state_change dumps self old new =
     (case self of
        PrinterCallbacks \<Rightarrow> PrinterCallbacks_state_change self old new
      | QueuedPrinterCallbacks q \<Rightarrow>
          on_queue (QueuedPrinterCallbacks_state_change dumps q old new))"

definition callbacks_temp_update ::
  "('f pyval \<Rightarrow> string) \<Rightarrow> callbacks
     \<Rightarrow> 'f pyval \<Rightarrow> 'f pyval \<Rightarrow> 'f pyval \<Rightarrow> 'f pyval \<Rightarrow> 'f pyval \<Rightarrow> 'f pyval
     \<Rightarrow> callbacks \<times> status" where
  "callbacks_temp_update dumps self bed_current bed_target nozzle1_current nozzle1_target
     nozzle2_current nozzle2_target =
     (case self of
        PrinterCallbacks \<Rightarrow>
          PrinterCallbacks_temp_update self bed_current bed_target nozzle1_current
            nozzle1_target nozzle2_current nozzle2_target
      | QueuedPrinterCallbacks q \<Rightarrow>
          on_queue (QueuedPrinterCallbacks_temp_update dumps q bed_current bed_target
            nozzle1_current nozzle1_target nozzle2_current nozzle2_target))"

definition callbacks_position_update ::
  "('f pyval \<Rightarrow> string) \<Rightarrow> callbacks \<Rightarrow> 'f pyval \<Rightarrow> 'f pyval \<Rightarrow> 'f pyval
     \<Rightarrow> callbacks \<times> status" where
  "callbacks_position_update dumps self x y z =
     (case self of
        PrinterCallbacks \<Rightarrow> PrinterCallbacks_position_update self x y z
      | QueuedPrinterCallbacks q \<Rightarrow>
          on_queue (QueuedPrinterCallbacks_position_update dumps q x y z))"

definition callbacks_progress_update ::
  "('f pyval \<Rightarrow> string) \<Rightarrow> callbacks \<Rightarrow> 'f pyval \<Rightarrow> 'f pyval \<Rightarrow> callbacks \<times> status" where
  "callbacks_progress_update dumps self current_line total_lines =
     (case self of
        PrinterCallbacks \<Rightarrow> PrinterCallbacks_progress_update self current_line total_lines
      | QueuedPrinterCallbacks q \<Rightarrow>
          on_queue (QueuedPrinterCallbacks_progress_update dumps q current_line total_lines))"

definition callbacks_z_change ::
  "('f pyval \<Rightarrow> string) \<Rightarrow> callbacks \<Rightarrow> 'f pyval \<Rightarrow> callbacks \<times> status" where
  "callbacks_z_change dumps self position =
     (case self of
        PrinterCallbacks \<Rightarrow> PrinterCallbacks_z_change self position
      | QueuedPrinterCallbacks q \<Rightarrow> on_queue (QueuedPrinterCallbacks_z_change dumps q position))"

text \<open>The records a callbacks object has placed on its queue; the placeholder object has
  no queue.\<close>

fun emitted :: "callbacks \<Rightarrow> string list" where
  "emitted PrinterCallbacks = []"
| "emitted (QueuedPrinterCallbacks q) = items q"

subsection \<open>The printer interface\<close>

text \<open>
  \<^verbatim>\<open>IPrinter\<close> keeps three attributes: \<^verbatim>\<open>_state\<close>, \<^verbatim>\<open>_to_printer\<close> and
  \<^verbatim>\<open>_callbacks\<close>. The constructor ignores \<^verbatim>\<open>baud_rate\<close> and \<^verbatim>\<open>port\<close>.
\<close>

record 'p IPrinter =
  state :: State
  to_printer :: 'p
  callbacks :: callbacks

definition IPrinter_init :: "'p \<Rightarrow> callbacks option \<Rightarrow> 'b \<Rightarrow> 'c \<Rightarrow> 'p IPrinter" where
  "IPrinter_init to_printer' printer_callbacks baud_rate port =
     \<lparr>state = DISCONNECTED,
      to_printer = to_printer',
      callbacks = (case printer_callbacks of
                     None \<Rightarrow> PrinterCallbacks
                   | Some cb \<Rightarrow> cb)\<rparr>"

text \<open>
  \<^verbatim>\<open>IPrinter._update_state\<close>: the state is assigned before the callback runs, so it is
  the new state also when the callback raises or waits.
\<close>

definition update_state ::
  "('f pyval \<Rightarrow> string) \<Rightarrow> 'p IPrinter \<Rightarrow> State \<Rightarrow> 'p IPrinter \<times> status" where
  "update_state dumps self new_state =
     (let old_state = state self;
          self1 = self\<lparr>state := new_state\<rparr>;
          r = callbacks_state_change dumps (callbacks self1) old_state new_state
      in (self1\<lparr>callbacks := fst r\<rparr>, snd r))"

text \<open>Consecutive calls of \<^verbatim>\<open>_update_state\<close>; a call that raises or waits ends the
  sequence, as an exception or a blocked call ends the caller's statements.\<close>

fun update_states ::
  "('f pyval \<Rightarrow> string) \<Rightarrow> 'p IPrinter \<Rightarrow> State list \<Rightarrow> 'p IPrinter \<times> status" where
  "update_states dumps self [] = (self, Done)"
| "update_states dumps self (n # ns) =
     (let r = update_state dumps self n
      in if snd r = Done then update_states dumps (fst r) ns else r)"

subsection \<open>The JSON encoder for enumerations\<close>

text \<open>
  The objects \<^verbatim>\<open>StateEncoder.default\<close> can be given: a member of an \<^verbatim>\<open>enum.Enum\<close>
  class (class name and member name), or an object of any other class (its
  \<^verbatim>\<open>repr\<close>). \<^verbatim>\<open>json.JSONEncoder.default\<close> raises \<^verbatim>\<open>TypeError\<close> for every object.
\<close>

datatype pyobj =
    Enum_member string string
  | Other_object string

definition State_member :: "State \<Rightarrow> pyobj" where
  "State_member s = Enum_member ''State'' (State_name s)"

definition JSONEncoder_default :: "pyobj \<Rightarrow> exn + string" where
  "JSONEncoder_default obj = Inl TypeError"

definition StateEncoder_default :: "pyobj \<Rightarrow> exn + string" where
  "StateEncoder_default obj =
     (case obj of
        Enum_member cls name \<Rightarrow> Inr name
      | Other_object r \<Rightarrow> JSONEncoder_default obj)"

subsection \<open>The state-gated operations\<close>

text \<open>
  \<^verbatim>\<open>set_temp\<close>, \<^verbatim>\<open>move_head_relative\<close>, \<^verbatim>\<open>move_head_absolute\<close>, \<^verbatim>\<open>home_head\<close>,
  \<^verbatim>\<open>execute_gcode\<close>, \<^verbatim>\<open>pause_execution\<close>, \<^verbatim>\<open>resume_execution\<close> and
  \<^verbatim>\<open>stop_execution\<close> of \<^verbatim>\<open>IPrinter\<close>. Each is decorated as an abstract method and its
  body is \<^verbatim>\<open>pass\<close>: it reads no attribute, changes none and returns \<^verbatim>\<open>None\<close>. Nothing in
  the module raises \<^verbatim>\<open>NotReadyException\<close>. Default arguments are written out by the
  caller.
\<close>

definition IPrinter_set_temp ::
  "'p IPrinter \<Rightarrow> 'a option \<Rightarrow> 'a option \<Rightarrow> 'a option \<Rightarrow> 'p IPrinter \<times> status" where
  "IPrinter_set_temp self bed nozzle1 nozzle2 = (self, Done)"

definition IPrinter_move_head_relative ::
  "'p IPrinter \<Rightarrow> 'a \<Rightarrow> 'a \<Rightarrow> 'a \<Rightarrow> 'p IPrinter \<times> status" where
  "IPrinter_move_head_relative self x y z = (self, Done)"

definition IPrinter_move_head_absolute ::
  "'p IPrinter \<Rightarrow> 'a \<Rightarrow> 'a \<Rightarrow> 'a \<Rightarrow> 'p IPrinter \<times> status" where
  "IPrinter_move_head_absolute self x y z = (self, Done)"

definition IPrinter_home_head ::
  "'p IPrinter \<Rightarrow> bool \<Rightarrow> bool \<Rightarrow> bool \<Rightarrow> 'p IPrinter \<times> status" where
  "IPrinter_home_head self x y z = (self, Done)"

definition IPrinter_execute_gcode :: "'p IPrinter \<Rightarrow> string list \<Rightarrow> 'p IPrinter \<times> status" where
  "IPrinter_execute_gcode self gcode_commands = (self, Done)"

definition IPrinter_pause_execution :: "'p IPrinter \<Rightarrow> 'p IPrinter \<times> status" where
  "IPrinter_pause_execution self = (self, Done)"

definition IPrinter_resume_execution :: "'p IPrinter \<Rightarrow> 'p IPrinter \<times> status" where
  "IPrinter_resume_execution self = (self, Done)"

definition IPrinter_stop_execution :: "'p IPrinter \<Rightarrow> 'p IPrinter \<times> status" where
  "IPrinter_stop_execution self = (self, Done)"

text \<open>A call of one of the eight operations, with its arguments.\<close>

datatype 'a operation =
    Set_temp "'a option" "'a option" "'a option"
  | Move_head_relative 'a 'a 'a
  | Move_head_absolute 'a 'a 'a
  | Home_head bool bool bool
  | Execute_gcode "string list"
  | Pause_execution
  | Resume_execution
  | Stop_execution

fun call :: "'p IPrinter \<Rightarrow> 'a operation \<Rightarrow> 'p IPrinter \<times> status" where
  "call self (Set_temp bed nozzle1 nozzle2) = IPrinter_set_temp self bed nozzle1 nozzle2"
| "call self (Move_head_relative x y z) = IPrinter_move_head_relative self x y z"
| "call self (Move_head_absolute x y z) = IPrinter_move_head_absolute self x y z"
| "call self (Home_head x y z) = IPrinter_home_head self x y z"
| "call self (Execute_gcode gcode_commands) = IPrinter_execute_gcode self gcode_commands"
| "call self Pause_execution = IPrinter_pause_execution self"
| "call self Resume_execution = IPrinter_resume_execution self"
| "call self Stop_execution = IPrinter_stop_execution self"

text \<open>
  The precondition of each operation in the words of the specification (its table of
  legal-operation preconditions): the states in which the operation is legal. The module
  has no such table and no check of the state.
\<close>

fun spec_required_states :: "'a operation \<Rightarrow> State list" where
  "spec_required_states (Set_temp bed nozzle1 nozzle2) = [READY, PAUSED]"
| "spec_required_states (Move_head_relative x y z) = [READY, PAUSED]"
| "spec_required_states (Move_head_absolute x y z) = [READY, PAUSED]"
| "spec_required_states (Home_head x y z) = [READY, PAUSED]"
| "spec_required_states (Execute_gcode gcode_commands) = [READY]"
| "spec_required_states Pause_execution = [EXECUTING]"
| "spec_required_states Resume_execution = [PAUSED]"
| "spec_required_states Stop_execution = [EXECUTING, PAUSED]"

subsection \<open>A rendering of the serializer\<close>

text \<open>
  \<^verbatim>\<open>json.dumps\<close> with its default options on the values of \<open>pyval\<close>: decimal
  integers, strings in double quotes with the escapes of \<^verbatim>\<open>ensure_ascii\<close>, dictionaries
  in insertion order with the separators \<^verbatim>\<open>", "\<close> and \<^verbatim>\<open>": "\<close>. The text of a
  float is \<^verbatim>\<open>float.__repr__\<close>, the parameter \<open>float_repr\<close>. The theorems below hold
  for every serializer; this one instantiates them.
\<close>

fun str_nat :: "nat \<Rightarrow> string" where
  "str_nat n =
     (if n < 10 then [char_of (48 + n)]
      else str_nat (n div 10) @ [char_of (48 + n mod 10)])"

declare str_nat.simps [simp del]

definition str_int :: "int \<Rightarrow> string" where
  "str_int i = (if i < 0 then CHR ''-'' # str_nat (nat (- i)) else str_nat (nat i))"

definition hex_digit :: "nat \<Rightarrow> char" where
  "hex_digit d = (if d < 10 then char_of (48 + d) else char_of (87 + d))"

definition escape_char :: "char \<Rightarrow> string" where
  "escape_char c =
     (if c = CHR 0x22 then [CHR 0x5C, CHR 0x22]
      else if c = CHR 0x5C then [CHR 0x5C, CHR 0x5C]
      else if c = CHR 0x0A then [CHR 0x5C, CHR ''n'']
      else if c = CHR 0x0D then [CHR 0x5C, CHR ''r'']
      else if c = CHR 0x09 then [CHR 0x5C, CHR ''t'']
      else if c = CHR 0x08 then [CHR 0x5C, CHR ''b'']
      else if c = CHR 0x0C then [CHR 0x5C, CHR ''f'']
      else if 32 \<le> (of_char c :: nat) \<and> (of_char c :: nat) \<le> 126 then [c]
      else [CHR 0x5C, CHR ''u'', CHR ''0'', CHR ''0'',
            hex_digit ((of_char c :: nat) div 16), hex_digit ((of_char c :: nat) mod 16)])"

definition json_str :: "string \<Rightarrow> string" where
  "json_str s = [CHR 0x22] @ concat (map escape_char s) @ [CHR 0x22]"

fun join :: "string \<Rightarrow> string list \<Rightarrow> string" where
  "join sep [] = []"
| "join sep [x] = x"
| "join sep (x # y # ys) = x @ sep @ join sep (y # ys)"

fun json_dumps :: "('f \<Rightarrow> string) \<Rightarrow> 'f pyval \<Rightarrow> string" where
  "json_dumps float_repr (PInt i) = str_int i"
| "json_dumps float_repr (PFloat x) = float_repr x"
| "json_dumps float_repr (PStr s) = json_str s"
| "json_dumps float_repr (PDict d) =
     ''{'' @ join '', ''
              (map (\<lambda>kv. json_str (fst kv) @ '': '' @ json_dumps float_repr (snd kv)) d)
       @ ''}''"

text \<open>Floats with an integral value of moderate size, given by that value: the
  \<^verbatim>\<open>repr\<close> of \<^verbatim>\<open>60.0\<close> is \<^verbatim>\<open>60.0\<close>.\<close>

definition integral_float_repr :: "int \<Rightarrow> string" where
  "integral_float_repr i = str_int i @ ''.0''"

text \<open>An open queue without a bound, as \<^verbatim>\<open>multiprocessing.Queue()\<close> creates it.\<close>

definition Queue :: "'a mpqueue" where
  "Queue = \<lparr>items = [], maxsize = 0, closed = False\<rparr>"

text \<open>The record of a \<^verbatim>\<open>state_change\<close> event: the serialization of the event object
  that \<^verbatim>\<open>QueuedPrinterCallbacks.state_change\<close> builds, after \<^verbatim>\<open>_publish\<close> has added the
  key \<^verbatim>\<open>jsonrpc\<close>.\<close>

definition state_change_record :: "('f pyval \<Rightarrow> string) \<Rightarrow> State \<Rightarrow> State \<Rightarrow> string" where
  "state_change_record dumps old new =
     dumps (PDict [(''event'', PStr ''state_change''),
                   (''params'', PDict [(''old'', PInt (State_value old)),
                                       (''new'', PInt (State_value new))]),
                   (''jsonrpc'', PStr ''2.0'')])"

section \<open>Properties\<close>

subsection \<open>Auxiliary facts\<close>

lemma queue_put_accepted:
  "\<not> closed q \<Longrightarrow> has_free_slot q \<Longrightarrow>
     queue_put q x block timeout = (q\<lparr>items := items q @ [x]\<rparr>, Done)"
  by (simp add: queue_put_def)

lemma publish_accepted:
  "\<not> closed q \<Longrightarrow> has_free_slot q \<Longrightarrow>
     publish dumps q ev =
       (q\<lparr>items := items q @ [dumps (PDict (dict_set ev ''jsonrpc'' (PStr ''2.0'')))]\<rparr>, Done)"
  by (simp add: publish_def queue_put_accepted)

lemma publish_cases:
  "publish dumps q ev =
     (if closed q then (q, Raised ValueError)
      else if has_free_slot q
      then (q\<lparr>items := items q @ [dumps (PDict (dict_set ev ''jsonrpc'' (PStr ''2.0'')))]\<rparr>, Done)
      else (q, Waiting))"
  by (simp add: publish_def queue_put_def)

lemma state_change_queued:
  "QueuedPrinterCallbacks_state_change dumps q old new =
     (if closed q then (q, Raised ValueError)
      else if has_free_slot q
      then (q\<lparr>items := items q @ [state_change_record dumps old new]\<rparr>, Done)
      else (q, Waiting))"
  by (simp add: QueuedPrinterCallbacks_state_change_def publish_cases state_change_record_def)

lemma state_change_dispatch:
  "callbacks_state_change dumps cb old new =
     (case cb of
        PrinterCallbacks \<Rightarrow> (PrinterCallbacks, Done)
      | QueuedPrinterCallbacks q \<Rightarrow>
          (if closed q then (QueuedPrinterCallbacks q, Raised ValueError)
           else if has_free_slot q
           then (QueuedPrinterCallbacks
                   (q\<lparr>items := items q @ [state_change_record dumps old new]\<rparr>), Done)
           else (QueuedPrinterCallbacks q, Waiting)))"
  by (simp add: callbacks_state_change_def PrinterCallbacks_state_change_def on_queue_def
      state_change_queued split: callbacks.splits)

lemma update_state_queued:
  assumes "callbacks self = QueuedPrinterCallbacks q"
  shows "update_state dumps self n =
     (if closed q then (self\<lparr>state := n\<rparr>, Raised ValueError)
      else if has_free_slot q
      then (self\<lparr>state := n,
                  callbacks := QueuedPrinterCallbacks
                    (q\<lparr>items := items q @ [state_change_record dumps (state self) n]\<rparr>)\<rparr>, Done)
      else (self\<lparr>state := n\<rparr>, Waiting))"
  using assms by (simp add: update_state_def Let_def state_change_dispatch)

lemma update_states_queued:
  "callbacks self = QueuedPrinterCallbacks q \<Longrightarrow>
   \<exists>k q'. k \<le> length ns
     \<and> callbacks (fst (update_states dumps self ns)) = QueuedPrinterCallbacks q'
     \<and> items q' = items q @
         map (\<lambda>e. state_change_record dumps (fst e) (snd e)) (take k (zip (state self # ns) ns))
     \<and> (snd (update_states dumps self ns) = Done \<longrightarrow> k = length ns)"
proof (induction ns arbitrary: self q)
  case Nil
  then show ?case by simp
next
  case (Cons n ns)
  note us = update_state_queued [OF Cons.prems, of dumps n]
  show ?case
  proof (cases "\<not> closed q \<and> has_free_slot q")
    case True
    let ?q1 = "q\<lparr>items := items q @ [state_change_record dumps (state self) n]\<rparr>"
    let ?s1 = "self\<lparr>state := n, callbacks := QueuedPrinterCallbacks ?q1\<rparr>"
    from True us have step: "update_state dumps self n = (?s1, Done)" by simp
    have "callbacks ?s1 = QueuedPrinterCallbacks ?q1" by simp
    from Cons.IH [OF this] obtain k q' where k: "k \<le> length ns"
      and c: "callbacks (fst (update_states dumps ?s1 ns)) = QueuedPrinterCallbacks q'"
      and i: "items q' = items ?q1 @
         map (\<lambda>e. state_change_record dumps (fst e) (snd e)) (take k (zip (state ?s1 # ns) ns))"
      and d: "snd (update_states dumps ?s1 ns) = Done \<longrightarrow> k = length ns"
      by blast
    have r: "update_states dumps self (n # ns) = update_states dumps ?s1 ns"
      by (simp add: step)
    have "Suc k \<le> length (n # ns)" using k by simp
    moreover have "callbacks (fst (update_states dumps self (n # ns))) = QueuedPrinterCallbacks q'"
      using c r by simp
    moreover have "items q' = items q @
         map (\<lambda>e. state_change_record dumps (fst e) (snd e))
           (take (Suc k) (zip (state self # n # ns) (n # ns)))"
      using i by simp
    moreover have "snd (update_states dumps self (n # ns)) = Done \<longrightarrow> Suc k = length (n # ns)"
      using d r by simp
    ultimately show ?thesis by blast
  next
    case False
    with us have step: "update_state dumps self n = (self\<lparr>state := n\<rparr>, Raised ValueError)
        \<or> update_state dumps self n = (self\<lparr>state := n\<rparr>, Waiting)"
      by auto
    then have r: "fst (update_states dumps self (n # ns)) = self\<lparr>state := n\<rparr>
        \<and> snd (update_states dumps self (n # ns)) \<noteq> Done"
      by auto
    have "(0::nat) \<le> length (n # ns)" by simp
    moreover have "callbacks (fst (update_states dumps self (n # ns))) = QueuedPrinterCallbacks q"
      using r Cons.prems by simp
    moreover have "items q = items q @
         map (\<lambda>e. state_change_record dumps (fst e) (snd e))
           (take 0 (zip (state self # n # ns) (n # ns)))"
      by simp
    moreover have "snd (update_states dumps self (n # ns)) = Done \<longrightarrow> 0 = length (n # ns)"
      using r by simp
    ultimately show ?thesis by blast
  qed
qed

lemma chain_links:
  assumes "evs = take k (zip (s # ns) ns)"
  shows "(evs \<noteq> [] \<longrightarrow> fst (hd evs) = s)
    \<and> (\<forall>i. Suc i < length evs \<longrightarrow> fst (evs ! Suc i) = snd (evs ! i))
    \<and> map snd evs = take (length evs) ns"
proof (intro conjI allI impI)
  assume "evs \<noteq> []"
  then show "fst (hd evs) = s"
    using assms by (cases ns; cases k) auto
next
  fix i assume "Suc i < length evs"
  then show "fst (evs ! Suc i) = snd (evs ! i)"
    using assms by simp
next
  have "map snd evs = take k (map snd (zip (s # ns) ns))"
    using assms by (simp add: take_map)
  also have "\<dots> = take k ns"
    by (simp add: map_snd_zip_take)
  also have "\<dots> = take (length evs) ns"
    using assms by (simp add: min_def)
  finally show "map snd evs = take (length evs) ns" .
qed

lemma Queue_accepts: "\<not> closed (Queue :: 'a mpqueue)" "has_free_slot (Queue :: 'a mpqueue)"
  by (simp_all add: Queue_def has_free_slot_def)






lemma wire_z_change:
  \<open>json_dumps integral_float_repr
     (PDict [(''event'', PStr ''z_change''), (''position'', PFloat 3),
             (''jsonrpc'', PStr ''2.0'')]) =
   ''{"event": "z_change", "position": 3.0, "jsonrpc": "2.0"}''\<close>
  by code_simp

lemma wire_self_transition:
  \<open>json_dumps integral_float_repr
     (PDict [(''event'', PStr ''state_change''),
             (''params'', PDict [(''old'', PInt (State_value PAUSED)),
                                 (''new'', PInt (State_value PAUSED))]),
             (''jsonrpc'', PStr ''2.0'')]) =
   ''{"event": "state_change", "params": {"old": 40, "new": 40}, "jsonrpc": "2.0"}''\<close>
  by code_simp

subsection \<open>The claims\<close>




text \<open>
  C2. \<^verbatim>\<open>State\<close> has exactly the five members \<^verbatim>\<open>DISCONNECTED\<close>, \<^verbatim>\<open>READY\<close>,
  \<^verbatim>\<open>EXECUTING\<close>, \<^verbatim>\<open>PAUSED\<close> and \<^verbatim>\<open>ERROR\<close>, with the values 10, 20, 30, 40 and 100, and
  the value of \<^verbatim>\<open>ERROR\<close> is greater than the value of every other member.
\<close>

theorem State_ordinals:
  "State_value DISCONNECTED = 10 \<and> State_value READY = 20 \<and> State_value EXECUTING = 30
   \<and> State_value PAUSED = 40 \<and> State_value ERROR = 100
   \<and> (UNIV :: State set) = set State_members
   \<and> distinct State_members \<and> length State_members = 5
   \<and> (\<forall>s. s \<noteq> ERROR \<longrightarrow> State_value s < State_value ERROR)"
proof -
  have u: "(UNIV :: State set) = set State_members"
  proof -
    have "s \<in> set State_members" for s
      by (cases s) (simp_all add: State_members_def)
    then show ?thesis by auto
  qed
  have m: "s \<noteq> ERROR \<longrightarrow> State_value s < State_value ERROR" for s
    by (cases s) simp_all
  show ?thesis using u m by (simp add: State_members_def)
qed

theorem State_ordinals_witness:
  "READY \<noteq> ERROR \<and> State_value READY < State_value ERROR"
  using State_ordinals by blast

text \<open>
  C3. The record of \<^verbatim>\<open>z_change(position)\<close> has no \<^verbatim>\<open>params\<close> field: its fields are
  exactly \<^verbatim>\<open>event\<close> (equal to \<^verbatim>\<open>z_change\<close>), \<^verbatim>\<open>position\<close> (the given value) and
  \<^verbatim>\<open>jsonrpc\<close> (equal to \<^verbatim>\<open>2.0\<close>), all at the top level, where the other kinds of event
  carry their payload under \<^verbatim>\<open>params\<close>.
\<close>

theorem z_change_record_is_flat:
  assumes "\<not> closed q" and "has_free_slot q"
  shows
    "callbacks_z_change dumps (QueuedPrinterCallbacks q) position =
       (QueuedPrinterCallbacks (q\<lparr>items := items q @
          [dumps (PDict [(''event'', PStr ''z_change''),
                         (''position'', position),
                         (''jsonrpc'', PStr ''2.0'')])]\<rparr>), Done)
     \<and> map fst (dict_set [(''event'', PStr ''z_change''), (''position'', position)]
                  ''jsonrpc'' (PStr ''2.0'')) = [''event'', ''position'', ''jsonrpc'']
     \<and> map_of (dict_set [(''event'', PStr ''z_change''), (''position'', position)]
                  ''jsonrpc'' (PStr ''2.0'')) ''params'' = None
     \<and> map_of (dict_set [(''event'', PStr ''z_change''), (''position'', position)]
                  ''jsonrpc'' (PStr ''2.0'')) ''position'' = Some position"
  by (simp add: callbacks_z_change_def QueuedPrinterCallbacks_z_change_def on_queue_def
      publish_accepted [OF assms])

theorem z_change_record_is_flat_witness:
  \<open>\<not> closed (Queue :: string mpqueue) \<and> has_free_slot (Queue :: string mpqueue)
   \<and> callbacks_z_change (json_dumps integral_float_repr) (QueuedPrinterCallbacks Queue)
        (PFloat 3) =
      (QueuedPrinterCallbacks (Queue\<lparr>items :=
         [''{"event": "z_change", "position": 3.0, "jsonrpc": "2.0"}'']\<rparr>), Done)\<close>
proof -
  have i: "items (Queue :: string mpqueue) = []"
    by (simp add: Queue_def)
  note r = z_change_record_is_flat [OF Queue_accepts,
      where dumps = "json_dumps integral_float_repr" and position = "PFloat 3", THEN conjunct1]
  show ?thesis
    using r unfolding wire_z_change i append_Nil
    by (simp only: Queue_accepts not_False_eq_True simp_thms)
qed

text \<open>
  C4. For every current state and every new state \<open>n\<close>, \<^verbatim>\<open>_update_state(n)\<close> sets the
  state to \<open>n\<close> and calls \<^verbatim>\<open>state_change\<close> on the callbacks exactly once, with the old
  state and \<open>n\<close>; no transition is checked or refused. With the placeholder callbacks
  nothing else changes; with queued callbacks whose queue takes the item, exactly the record
  of that event is appended.
\<close>

theorem update_state_unconditional:
  "state (fst (update_state dumps self n)) = n
   \<and> to_printer (fst (update_state dumps self n)) = to_printer self
   \<and> (callbacks (fst (update_state dumps self n)), snd (update_state dumps self n)) =
       callbacks_state_change dumps (callbacks self) (state self) n
   \<and> (callbacks self = PrinterCallbacks \<longrightarrow>
        update_state dumps self n = (self\<lparr>state := n\<rparr>, Done))
   \<and> (\<forall>q. callbacks self = QueuedPrinterCallbacks q \<and> \<not> closed q \<and> has_free_slot q \<longrightarrow>
        update_state dumps self n =
          (self\<lparr>state := n,
                callbacks := QueuedPrinterCallbacks
                  (q\<lparr>items := items q @ [state_change_record dumps (state self) n]\<rparr>)\<rparr>,
           Done))"
  by (simp add: update_state_def Let_def state_change_dispatch)

theorem update_state_unconditional_witness:
  "update_state (json_dumps integral_float_repr)
     \<lparr>state = ERROR, to_printer = (), callbacks = QueuedPrinterCallbacks Queue\<rparr> EXECUTING =
     (\<lparr>state = EXECUTING, to_printer = (),
       callbacks = QueuedPrinterCallbacks
         (Queue\<lparr>items := [state_change_record (json_dumps integral_float_repr) ERROR EXECUTING]\<rparr>)\<rparr>,
      Done)"
  using update_state_unconditional [of "json_dumps integral_float_repr"
      "\<lparr>state = ERROR, to_printer = (), callbacks = QueuedPrinterCallbacks Queue\<rparr>" EXECUTING]
    Queue_accepts [where 'a = string]
  by (simp add: Queue_def)

text \<open>
  C5. After any finite sequence of \<^verbatim>\<open>_update_state\<close> calls on a freshly constructed
  printer with queued callbacks, the \<^verbatim>\<open>state_change\<close> events on the queue form a chain:
  the first has \<^verbatim>\<open>old\<close> equal to \<^verbatim>\<open>DISCONNECTED\<close> (10), each later one has \<^verbatim>\<open>old\<close>
  equal to the \<^verbatim>\<open>new\<close> of the one before, and their \<^verbatim>\<open>new\<close> fields are the requested
  states in order; when every call returned there is one event for each call.
\<close>

theorem state_change_chain:
  "\<exists>evs q'.
     callbacks (fst (update_states dumps
        (IPrinter_init tp (Some (QueuedPrinterCallbacks q)) baud_rate port) ns)) =
       QueuedPrinterCallbacks q'
     \<and> items q' = items q @ map (\<lambda>e. state_change_record dumps (fst e) (snd e)) evs
     \<and> (evs \<noteq> [] \<longrightarrow> fst (hd evs) = DISCONNECTED \<and> State_value (fst (hd evs)) = 10)
     \<and> (\<forall>i. Suc i < length evs \<longrightarrow> fst (evs ! Suc i) = snd (evs ! i))
     \<and> map snd evs = take (length evs) ns
     \<and> (snd (update_states dumps
          (IPrinter_init tp (Some (QueuedPrinterCallbacks q)) baud_rate port) ns) = Done
        \<longrightarrow> length evs = length ns)"
proof -
  let ?p = "IPrinter_init tp (Some (QueuedPrinterCallbacks q)) baud_rate port"
  have c: "callbacks ?p = QueuedPrinterCallbacks q" and s: "state ?p = DISCONNECTED"
    by (simp_all add: IPrinter_init_def)
  from update_states_queued [OF c, of ns dumps] obtain k q' where k: "k \<le> length ns"
    and cb: "callbacks (fst (update_states dumps ?p ns)) = QueuedPrinterCallbacks q'"
    and i: "items q' = items q @
         map (\<lambda>e. state_change_record dumps (fst e) (snd e)) (take k (zip (state ?p # ns) ns))"
    and d: "snd (update_states dumps ?p ns) = Done \<longrightarrow> k = length ns"
    by blast
  define evs where "evs = take k (zip (DISCONNECTED # ns) ns)"
  have l: "length evs = k" using k by (simp add: evs_def)
  note ch = chain_links [OF evs_def]
  have "items q' = items q @ map (\<lambda>e. state_change_record dumps (fst e) (snd e)) evs"
    using i s by (simp add: evs_def)
  moreover have "evs \<noteq> [] \<longrightarrow> fst (hd evs) = DISCONNECTED \<and> State_value (fst (hd evs)) = 10"
    using ch by simp
  moreover have "\<forall>i. Suc i < length evs \<longrightarrow> fst (evs ! Suc i) = snd (evs ! i)"
    using ch by blast
  moreover have "map snd evs = take (length evs) ns"
    using ch by blast
  moreover have "snd (update_states dumps ?p ns) = Done \<longrightarrow> length evs = length ns"
    using d l by simp
  ultimately show ?thesis using cb by blast
qed

theorem state_change_chain_witness:
  "snd (update_states (json_dumps integral_float_repr)
          (IPrinter_init () (Some (QueuedPrinterCallbacks Queue)) () ()) [READY, EXECUTING]) = Done
   \<and> emitted (callbacks (fst (update_states (json_dumps integral_float_repr)
          (IPrinter_init () (Some (QueuedPrinterCallbacks Queue)) () ()) [READY, EXECUTING]))) =
       [state_change_record (json_dumps integral_float_repr) DISCONNECTED READY,
        state_change_record (json_dumps integral_float_repr) READY EXECUTING]"
proof -
  let ?D = "json_dumps integral_float_repr"
  let ?r = "update_states ?D (IPrinter_init () (Some (QueuedPrinterCallbacks Queue)) () ())
              [READY, EXECUTING]"
  have fin: "snd ?r = Done"
    by (simp add: IPrinter_init_def update_state_def Let_def state_change_dispatch
        Queue_def has_free_slot_def)
  from state_change_chain [of ?D "()" Queue "()" "()" "[READY, EXECUTING]"]
  obtain evs q' where cb: "callbacks (fst ?r) = QueuedPrinterCallbacks q'"
    and i: "items q' = items (Queue :: string mpqueue) @
              map (\<lambda>e. state_change_record ?D (fst e) (snd e)) evs"
    and h: "evs \<noteq> [] \<longrightarrow> fst (hd evs) = DISCONNECTED \<and> State_value (fst (hd evs)) = 10"
    and link: "\<forall>i. Suc i < length evs \<longrightarrow> fst (evs ! Suc i) = snd (evs ! i)"
    and news: "map snd evs = take (length evs) [READY, EXECUTING]"
    and all: "snd ?r = Done \<longrightarrow> length evs = length [READY, EXECUTING]"
    by blast
  from all fin have len: "length evs = 2" by simp
  then obtain a b where evs: "evs = [a, b]"
    by (cases evs; cases "tl evs") auto
  from news evs have "snd a = READY" "snd b = EXECUTING" by simp_all
  moreover from h evs have "fst a = DISCONNECTED" by simp
  moreover from link evs have "fst b = snd a" by simp
  ultimately have "evs = [(DISCONNECTED, READY), (READY, EXECUTING)]"
    using evs by (simp add: prod_eq_iff)
  with i cb have "emitted (callbacks (fst ?r)) =
      [state_change_record ?D DISCONNECTED READY, state_change_record ?D READY EXECUTING]"
    by (simp add: Queue_def)
  with fin show ?thesis by simp
qed

text \<open>
  C6, as the module behaves. Each of the eight operations (\<^verbatim>\<open>set_temp\<close>,
  \<^verbatim>\<open>move_head_relative\<close>, \<^verbatim>\<open>move_head_absolute\<close>, \<^verbatim>\<open>home_head\<close>,
  \<^verbatim>\<open>execute_gcode\<close>, \<^verbatim>\<open>pause_execution\<close>, \<^verbatim>\<open>resume_execution\<close>,
  \<^verbatim>\<open>stop_execution\<close>), as this module defines it, returns in every state without raising
  and leaves the state, the command queue and the callbacks as they were. In particular,
  invoked in a state outside the states the specification requires for it, it has no side
  effect and changes no state, but it does not fail with \<^verbatim>\<open>NotReadyException\<close>.
\<close>

theorem gated_operations_are_placeholders:
  "call self op = (self, Done)
   \<and> (state self \<notin> set (spec_required_states op) \<longrightarrow>
        fst (call self op) = self
        \<and> snd (call self op) = Done
        \<and> snd (call self op) \<noteq> Raised NotReadyException)"
proof -
  have "call self op = (self, Done)"
    by (cases op)
      (simp_all add: IPrinter_set_temp_def IPrinter_move_head_relative_def
        IPrinter_move_head_absolute_def IPrinter_home_head_def IPrinter_execute_gcode_def
        IPrinter_pause_execution_def IPrinter_resume_execution_def
        IPrinter_stop_execution_def)
  then show ?thesis by simp
qed

theorem gated_operations_are_placeholders_witness:
  "state \<lparr>state = PAUSED, to_printer = (), callbacks = QueuedPrinterCallbacks Queue\<rparr>
     \<notin> set (spec_required_states (Execute_gcode [''G28'', ''G1 Z5''] :: int operation))
   \<and> call \<lparr>state = PAUSED, to_printer = (), callbacks = QueuedPrinterCallbacks Queue\<rparr>
       (Execute_gcode [''G28'', ''G1 Z5''] :: int operation) =
     (\<lparr>state = PAUSED, to_printer = (), callbacks = QueuedPrinterCallbacks Queue\<rparr>, Done)"
proof -
  let ?p = "\<lparr>state = PAUSED, to_printer = (), callbacks = QueuedPrinterCallbacks Queue\<rparr>"
  let ?op = "Execute_gcode [''G28'', ''G1 Z5''] :: int operation"
  have h: "state ?p \<notin> set (spec_required_states ?op)" by simp
  from gated_operations_are_placeholders [of ?p ?op]
  have "call ?p ?op = (?p, Done)" by (rule conjunct1)
  with h show ?thesis by (rule conjI)
qed

text \<open>
  C6 as stated fails: \<^verbatim>\<open>set_temp(bed=60)\<close> on a freshly constructed printer, whose
  state \<^verbatim>\<open>DISCONNECTED\<close> is outside the states required for \<^verbatim>\<open>set_temp\<close>, returns
  and raises nothing.
\<close>

theorem set_temp_disconnected_counterexample:
  "state (IPrinter_init () None () ()) = DISCONNECTED
   \<and> DISCONNECTED \<notin> set (spec_required_states (Set_temp (Some (60::int)) None None))
   \<and> call (IPrinter_init () None () ()) (Set_temp (Some (60::int)) None None) =
       (IPrinter_init () None () (), Done)
   \<and> snd (call (IPrinter_init () None () ()) (Set_temp (Some (60::int)) None None)) \<noteq>
       Raised NotReadyException"
  by (simp add: IPrinter_init_def IPrinter_set_temp_def)

text \<open>
  C7, as the module behaves. A publish attempt on an open queue with a free slot (always so
  when the queue has no bound) appends the record and returns. On a closed queue the
  \<^verbatim>\<open>ValueError\<close> of \<^verbatim>\<open>put\<close> reaches the caller and the queue is unchanged. On a full
  bounded queue the attempt does not fail: \<^verbatim>\<open>put\<close> is called with its defaults and waits
  for a free slot; \<^verbatim>\<open>Full\<close> is never raised.
\<close>

theorem publish_outcomes:
  "publish dumps q ev =
     (if closed q then (q, Raised ValueError)
      else if has_free_slot q
      then (q\<lparr>items := items q @ [dumps (PDict (dict_set ev ''jsonrpc'' (PStr ''2.0'')))]\<rparr>, Done)
      else (q, Waiting))
   \<and> snd (publish dumps q ev) \<noteq> Raised Full
   \<and> (maxsize q \<le> 0 \<and> \<not> closed q \<longrightarrow> snd (publish dumps q ev) = Done)
   \<and> (snd (publish dumps q ev) \<noteq> Done \<longrightarrow> fst (publish dumps q ev) = q)"
  by (simp add: publish_cases has_free_slot_def)

theorem publish_outcomes_witness:
  "maxsize (Queue :: string mpqueue) \<le> 0 \<and> \<not> closed (Queue :: string mpqueue)
   \<and> snd (publish (json_dumps integral_float_repr) Queue
        [(''event'', PStr ''z_change''), (''position'', PFloat 3)]) = Done
   \<and> publish (json_dumps integral_float_repr) (Queue\<lparr>closed := True\<rparr>)
        [(''event'', PStr ''z_change''), (''position'', PFloat 3)] =
      (Queue\<lparr>closed := True\<rparr>, Raised ValueError)"
proof -
  let ?D = "json_dumps integral_float_repr"
  let ?ev = "[(''event'', PStr ''z_change''), (''position'', PFloat 3)]"
  have a: "maxsize (Queue :: string mpqueue) \<le> 0 \<and> \<not> closed (Queue :: string mpqueue)"
    by (simp add: Queue_def)
  from publish_outcomes [of ?D Queue ?ev]
  have "maxsize (Queue :: string mpqueue) \<le> 0 \<and> \<not> closed (Queue :: string mpqueue)
      \<longrightarrow> snd (publish ?D Queue ?ev) = Done"
    by blast
  with a have b: "snd (publish ?D Queue ?ev) = Done" by blast
  from publish_outcomes [of ?D "Queue\<lparr>closed := True\<rparr>" ?ev]
  have c: "publish ?D (Queue\<lparr>closed := True\<rparr>) ?ev = (Queue\<lparr>closed := True\<rparr>, Raised ValueError)"
    by simp
  from a b c show ?thesis by blast
qed

text \<open>
  C7 as stated fails: on a queue of bound 1 that holds one item, publishing does not fail
  but waits.
\<close>

theorem publish_full_queue_counterexample:
  "publish (json_dumps integral_float_repr)
     \<lparr>items = [''x''], maxsize = 1, closed = False\<rparr>
     [(''event'', PStr ''z_change''), (''position'', PFloat 3)] =
   (\<lparr>items = [''x''], maxsize = 1, closed = False\<rparr>, Waiting)"
  by (simp add: publish_def queue_put_def has_free_slot_def)

text \<open>
  C8. A printer constructed without \<^verbatim>\<open>printer_callbacks\<close> holds the placeholder
  \<^verbatim>\<open>PrinterCallbacks\<close>, and each of its six methods returns without emitting a record or
  changing anything.
\<close>

theorem default_callbacks_do_nothing:
  "callbacks (IPrinter_init tp None baud_rate port) = PrinterCallbacks
   \<and> callbacks_log dumps (callbacks (IPrinter_init tp None baud_rate port)) level message =
       (PrinterCallbacks, Done)
   \<and> callbacks_state_change dumps (callbacks (IPrinter_init tp None baud_rate port)) old new =
       (PrinterCallbacks, Done)
   \<and> callbacks_temp_update dumps (callbacks (IPrinter_init tp None baud_rate port))
       bed_current bed_target nozzle1_current nozzle1_target nozzle2_current nozzle2_target =
       (PrinterCallbacks, Done)
   \<and> callbacks_position_update dumps (callbacks (IPrinter_init tp None baud_rate port)) x y z =
       (PrinterCallbacks, Done)
   \<and> callbacks_progress_update dumps (callbacks (IPrinter_init tp None baud_rate port))
       current_line total_lines = (PrinterCallbacks, Done)
   \<and> callbacks_z_change dumps (callbacks (IPrinter_init tp None baud_rate port)) new_z =
       (PrinterCallbacks, Done)
   \<and> emitted PrinterCallbacks = []"
  by (simp add: IPrinter_init_def callbacks_log_def callbacks_state_change_def
      callbacks_temp_update_def callbacks_position_update_def callbacks_progress_update_def
      callbacks_z_change_def PrinterCallbacks_log_def PrinterCallbacks_state_change_def
      PrinterCallbacks_temp_update_def PrinterCallbacks_position_update_def
      PrinterCallbacks_progress_update_def PrinterCallbacks_z_change_def)

text \<open>
  C9. \<^verbatim>\<open>StateEncoder.default\<close> returns the name of every enumeration member given to it,
  so \<^verbatim>\<open>State.ERROR\<close> becomes the string \<^verbatim>\<open>ERROR\<close>; every other object goes to
  \<^verbatim>\<open>json.JSONEncoder.default\<close>, which raises \<^verbatim>\<open>TypeError\<close>. The queued callbacks do not
  use the names: the \<^verbatim>\<open>state_change\<close> event of \<^verbatim>\<open>ERROR\<close> carries the integer 100.
\<close>

theorem StateEncoder_gives_names:
  "StateEncoder_default (Enum_member cls name) = Inr name
   \<and> StateEncoder_default (State_member s) = Inr (State_name s)
   \<and> StateEncoder_default (State_member ERROR) = Inr ''ERROR''
   \<and> StateEncoder_default (Other_object r) = JSONEncoder_default (Other_object r)
   \<and> StateEncoder_default (Other_object r) = Inl TypeError
   \<and> QueuedPrinterCallbacks_state_change dumps q ERROR ERROR =
       publish dumps q
         [(''event'', PStr ''state_change''),
          (''params'', PDict [(''old'', PInt 100), (''new'', PInt 100)])]"
  by (simp add: StateEncoder_default_def State_member_def JSONEncoder_default_def
      QueuedPrinterCallbacks_state_change_def)

text \<open>
  C10. \<^verbatim>\<open>_update_state(s)\<close> on a printer that is already in state \<open>s\<close> still calls
  \<^verbatim>\<open>state_change(s, s)\<close>; with queued callbacks whose queue takes the item, the record of
  an event with \<^verbatim>\<open>old\<close> and \<^verbatim>\<open>new\<close> both equal to the value of \<open>s\<close> is appended.
\<close>

theorem self_transition_fires:
  assumes "state self = s"
  shows
    "(callbacks (fst (update_state dumps self s)), snd (update_state dumps self s)) =
       callbacks_state_change dumps (callbacks self) s s
     \<and> (\<forall>q. callbacks self = QueuedPrinterCallbacks q \<and> \<not> closed q \<and> has_free_slot q \<longrightarrow>
          update_state dumps self s =
            (self\<lparr>callbacks := QueuedPrinterCallbacks
               (q\<lparr>items := items q @
                  [dumps (PDict [(''event'', PStr ''state_change''),
                                 (''params'', PDict [(''old'', PInt (State_value s)),
                                                     (''new'', PInt (State_value s))]),
                                 (''jsonrpc'', PStr ''2.0'')])]\<rparr>)\<rparr>,
             Done))"
  using assms
  by (auto simp add: update_state_def Let_def state_change_dispatch state_change_record_def)

theorem self_transition_fires_witness:
  \<open>state \<lparr>state = PAUSED, to_printer = (), callbacks = QueuedPrinterCallbacks Queue\<rparr> = PAUSED
   \<and> update_state (json_dumps integral_float_repr)
       \<lparr>state = PAUSED, to_printer = (), callbacks = QueuedPrinterCallbacks Queue\<rparr> PAUSED =
     (\<lparr>state = PAUSED, to_printer = (),
       callbacks = QueuedPrinterCallbacks
         (Queue\<lparr>items :=
            [''{"event": "state_change", "params": {"old": 40, "new": 40}, "jsonrpc": "2.0"}'']\<rparr>)\<rparr>,
      Done)\<close>
proof -
  let ?p = "\<lparr>state = PAUSED, to_printer = (), callbacks = QueuedPrinterCallbacks Queue\<rparr>"
  have s: "state ?p = PAUSED" by simp
  have i: "items (Queue :: string mpqueue) = []"
    by (simp add: Queue_def)
  from self_transition_fires [OF s, of "json_dumps integral_float_repr", THEN conjunct2]
  have "update_state (json_dumps integral_float_repr) ?p PAUSED =
          (?p\<lparr>callbacks := QueuedPrinterCallbacks
             (Queue\<lparr>items := items Queue @
                [json_dumps integral_float_repr
                   (PDict [(''event'', PStr ''state_change''),
                           (''params'', PDict [(''old'', PInt (State_value PAUSED)),
                                               (''new'', PInt (State_value PAUSED))]),
                           (''jsonrpc'', PStr ''2.0'')])]\<rparr>)\<rparr>, Done)"
    using Queue_accepts [where 'a = string] by simp
  then show ?thesis
    unfolding wire_self_transition i append_Nil by simp
qed

end
